theory Spec2Isabelle
  imports
    Main
    "HOL-Library.Sublist"
    "HOL-Library.AList"
    "HOL-Library.Multiset"
    "HOL-Library.Char_ord"
    "HOL-Library.List_Lexorder"
    "HOL-Library.Product_Lexorder"
begin

section \<open>Strings and paths\<close>

text \<open>
  Go strings are byte sequences, modelled as \<^typ>\<open>string\<close>. The functions of the
  packages \<^verbatim>\<open>strings\<close> and \<^verbatim>\<open>path/filepath\<close> that the validator calls are
  written out here with their Go names.
\<close>

definition HasSuffix :: "string \<Rightarrow> string \<Rightarrow> bool" where
  "HasSuffix s suf = suffix suf s"

definition HasPrefix :: "string \<Rightarrow> string \<Rightarrow> bool" where
  "HasPrefix s pre = prefix pre s"

definition Contains :: "string \<Rightarrow> string \<Rightarrow> bool" where
  "Contains s sub = sublist sub s"

text \<open>The white space of \<^verbatim>\<open>strings.TrimSpace\<close>, on the ASCII range.\<close>

definition isSpace :: "char \<Rightarrow> bool" where
  "isSpace c = (c = CHR 0x09 \<or> c = CHR 0x0A \<or> c = CHR 0x0B \<or> c = CHR 0x0C
                \<or> c = CHR 0x0D \<or> c = CHR 0x20)"

definition TrimSpace :: "string \<Rightarrow> string" where
  "TrimSpace s = rev (dropWhile isSpace (rev (dropWhile isSpace s)))"

text \<open>\<^verbatim>\<open>strings.Trim(s, cutset)\<close> for a one-character cutset.\<close>

definition Trim :: "string \<Rightarrow> char \<Rightarrow> string" where
  "Trim s c = rev (dropWhile (\<lambda>x. x = c) (rev (dropWhile (\<lambda>x. x = c) s)))"

text \<open>\<^verbatim>\<open>strings.Split(s, sep)\<close> for a one-character separator: never empty.\<close>

fun Split :: "string \<Rightarrow> char \<Rightarrow> string list" where
  "Split [] c = [[]]"
| "Split (x # xs) c =
     (if x = c then [] # Split xs c
      else (case Split xs c of [] \<Rightarrow> [[x]] | s # ss \<Rightarrow> (x # s) # ss))"

text \<open>
  \<^verbatim>\<open>filepath.Base\<close> on a Unix path: the empty path gives \<^verbatim>\<open>.\<close>, trailing separators
  are dropped, a path of separators only gives one separator, and otherwise the result
  is what follows the last separator.
\<close>

definition Base :: "string \<Rightarrow> string" where
  "Base path =
     (if path = [] then ''.''
      else (let p = rev (dropWhile (\<lambda>c. c = CHR ''/'') (rev path))
            in if p = [] then ''/''
               else rev (takeWhile (\<lambda>c. c \<noteq> CHR ''/'') (rev p))))"

text \<open>
  \<^verbatim>\<open>filepath.Join(dir, name)\<close> as \<^verbatim>\<open>filepath.Walk\<close> uses it, on a clean directory path
  and a directory entry's name: below the root \<^verbatim>\<open>.\<close> the result is the bare name.
\<close>

definition Join :: "string \<Rightarrow> string \<Rightarrow> string" where
  "Join dir name = (if dir = ''.'' then name else dir @ ''/'' @ name)"

section \<open>Syntax trees\<close>

text \<open>
  The part of \<^verbatim>\<open>go/ast\<close> the rule checkers look at. A position is the line and column
  that \<^verbatim>\<open>globalFileSet.Position\<close> resolves it to. \<open>Node\<close> stands for every node kind
  the checkers have no case for, with its children in the order \<^verbatim>\<open>ast.Inspect\<close> visits
  them. Type parameter lists are left out.
\<close>

type_synonym position = "int \<times> int"

datatype expr =
    Ident string
  | StarExpr position expr
  | SelectorExpr expr string
  | StructType "field list"
  | InterfaceType "field list"
  | FuncType "field list" "field list"
  | Node "expr list"
and field = Field (fieldNames: "string list") (fieldType: expr)

datatype token = IMPORT | CONST | TYPEDECL | VAR

datatype spec =
    TypeSpec position string expr
  | ImportSpec "string option" string
  | ValueSpec "string list" "expr list"

text \<open>
  A function declaration: position, receiver list (absent for a plain function), name,
  parameter list, result list (absent when the function returns nothing) and the nodes
  of its body.
\<close>

datatype decl =
    GenDecl token "spec list"
  | FuncDecl position "field list option" string "field list option" "field list option"
      "expr list"
  | BadDecl

datatype objKind = Bad | Pkg | Con | Typ | Var | Fun | Lbl

text \<open>
  An \<^verbatim>\<open>ast.Object\<close>: its kind and its declaration, which is \<open>Some\<close> specification when
  the object was declared by one and \<open>None\<close> for every other kind of declaration.
\<close>

datatype object = Object (Kind: objKind) (Decl: "spec option")

text \<open>
  An \<^verbatim>\<open>ast.File\<close>: the declared package name, the declarations, the import specifications
  (optional alias, quoted path) and the lookup function of the file scope, all as the
  parser produced them.
\<close>

record astFile =
  Name :: string
  Decls :: "decl list"
  Imports :: "(string option \<times> string) list"
  Scope :: "string \<Rightarrow> object option"

text \<open>
  An \<^verbatim>\<open>ast.Package\<close>. Go maps are association lists with distinct keys here; the order
  in which a \<^verbatim>\<open>range\<close> loop visits them is chosen by the runtime and is a parameter of
  every function below that ranges over one.
\<close>

record Package =
  pkgName :: string
  pkgFiles :: "(string \<times> astFile) list"

type_synonym packages = "(string \<times> Package) list"

section \<open>The source tree and its loader\<close>

text \<open>
  What \<^verbatim>\<open>os.ReadFile\<close> followed by \<^verbatim>\<open>parser.ParseFile\<close> gives for a file: a read error,
  a parse error, or a syntax tree.
\<close>

datatype content = ReadError | ParseError | Parsed astFile

text \<open>
  A directory tree as \<^verbatim>\<open>filepath.Walk\<close> sees it: a file, a directory with its entries
  in the (lexical) order \<^verbatim>\<open>Walk\<close> visits them, or an entry whose \<^verbatim>\<open>lstat\<close> fails, for
  which \<^verbatim>\<open>Walk\<close> hands an error to the callback.
\<close>

datatype fsnode =
    FileNode string content
  | DirNode string "fsnode list"
  | ErrNode string

fun nodeName :: "fsnode \<Rightarrow> string" where
  "nodeName (FileNode n c) = n"
| "nodeName (DirNode n cs) = n"
| "nodeName (ErrNode n) = n"

fun IsDir :: "fsnode \<Rightarrow> bool" where
  "IsDir (DirNode n cs) = True"
| "IsDir other = False"

fun lstatFails :: "fsnode \<Rightarrow> bool" where
  "lstatFails (ErrNode n) = True"
| "lstatFails other = False"

datatype walkError = WalkFailure | ReadFileError | ParseFileError

datatype walkResult = WalkNil | SkipDir | WalkErr walkError

text \<open>
  The loop over the user's exclusion patterns in the callback of \<open>parseProject\<close>;
  \<open>True\<close> is its \<^verbatim>\<open>return nil\<close>. \<open>Match p n\<close> stands for
  \<^verbatim>\<open>filepath.Match(p, n)\<close> returning no error and a match; the standard library's glob
  matcher is a parameter.
\<close>

definition containmentMatch :: "string \<Rightarrow> string \<Rightarrow> bool" where
  "containmentMatch path excludePattern =
     (Contains path (excludePattern @ ''/'') \<or> HasSuffix path (''/'' @ excludePattern))"

fun excludeLoop :: "(string \<Rightarrow> string \<Rightarrow> bool) \<Rightarrow> string \<Rightarrow> string list \<Rightarrow> bool" where
  "excludeLoop Match path [] = False"
| "excludeLoop Match path (p # ps) =
     (let excludePattern = TrimSpace p in
      if excludePattern = [] then excludeLoop Match path ps
      else if Base path = excludePattern then True
      else if containmentMatch path excludePattern then True
      else if (Contains excludePattern ''*'' \<or> Contains excludePattern ''?'')
              \<and> (Match excludePattern (Base path) \<or> Match excludePattern path) then True
      else excludeLoop Match path ps)"

text \<open>The loop that decides \<^verbatim>\<open>filepath.SkipDir\<close> for a directory.\<close>

fun skipDirLoop :: "string \<Rightarrow> string list \<Rightarrow> bool" where
  "skipDirLoop path [] = False"
| "skipDirLoop path (p # ps) =
     (let excludeDir = TrimSpace p in
      if excludeDir \<noteq> [] \<and> HasSuffix path excludeDir then True
      else skipDirLoop path ps)"

text \<open>Storing a parsed file under its declared package name.\<close>

definition addFile :: "string \<Rightarrow> astFile \<Rightarrow> packages \<Rightarrow> packages" where
  "addFile path f pkgs =
     (let pkg = (case map_of pkgs (Name f) of
                   None \<Rightarrow> \<lparr>pkgName = Name f, pkgFiles = []\<rparr>
                 | Some p \<Rightarrow> p)
      in AList.update (Name f) (pkg\<lparr>pkgFiles := AList.update path f (pkgFiles pkg)\<rparr>) pkgs)"

text \<open>
  The callback that \<open>parseProject\<close> hands to \<^verbatim>\<open>filepath.Walk\<close>, with the package map
  as explicit state. A directory that reaches \<^verbatim>\<open>os.ReadFile\<close> makes it fail.
\<close>

definition walkFn ::
  "(string \<Rightarrow> string \<Rightarrow> bool) \<Rightarrow> string list \<Rightarrow> string \<Rightarrow> fsnode \<Rightarrow> packages
     \<Rightarrow> walkResult \<times> packages" where
  "walkFn Match excludeDirs path node pkgs =
     (case node of
        ErrNode n \<Rightarrow> (WalkErr WalkFailure, pkgs)
      | _ \<Rightarrow>
        if \<not> HasSuffix path ''.go'' \<or> Contains path ''vendor/'' \<or> Contains path ''.git/''
        then (WalkNil, pkgs)
        else if excludeLoop Match path excludeDirs then (WalkNil, pkgs)
        else if IsDir node \<and> skipDirLoop path excludeDirs then (SkipDir, pkgs)
        else (case node of
                FileNode n (Parsed f) \<Rightarrow> (WalkNil, addFile path f pkgs)
              | FileNode n ParseError \<Rightarrow> (WalkErr ParseFileError, pkgs)
              | _ \<Rightarrow> (WalkErr ReadFileError, pkgs)))"

text \<open>
  \<^verbatim>\<open>filepath.Walk\<close>: the callback runs on a node before its entries; an error stops the
  walk; \<^verbatim>\<open>SkipDir\<close> from a directory skips its entries, and from a file the rest of the
  directory that holds it.
\<close>

fun walk ::
  "(string \<Rightarrow> fsnode \<Rightarrow> 's \<Rightarrow> walkResult \<times> 's) \<Rightarrow> string \<Rightarrow> fsnode \<Rightarrow> 's \<Rightarrow> walkResult \<times> 's"
and walkEntries ::
  "(string \<Rightarrow> fsnode \<Rightarrow> 's \<Rightarrow> walkResult \<times> 's) \<Rightarrow> string \<Rightarrow> fsnode list \<Rightarrow> 's \<Rightarrow> walkResult \<times> 's"
where
  "walk fn path (DirNode n cs) s =
     (case fn path (DirNode n cs) s of
        (WalkNil, s') \<Rightarrow> walkEntries fn path cs s'
      | (r, s') \<Rightarrow> (r, s'))"
| "walk fn path (FileNode n c) s = fn path (FileNode n c) s"
| "walk fn path (ErrNode n) s = fn path (ErrNode n) s"
| "walkEntries fn path [] s = (WalkNil, s)"
| "walkEntries fn path (c # cs) s =
     (case walk fn (Join path (nodeName c)) c s of
        (WalkNil, s') \<Rightarrow> walkEntries fn path cs s'
      | (SkipDir, s') \<Rightarrow> if IsDir c \<or> lstatFails c then walkEntries fn path cs s'
                        else (SkipDir, s')
      | (WalkErr e, s') \<Rightarrow> (WalkErr e, s'))"

text \<open>
  The callback with a log of its invocations, to speak about what a walk visits: each
  entry is the path the callback was called on and the value it returned.
\<close>

definition traced ::
  "(string \<Rightarrow> fsnode \<Rightarrow> 's \<Rightarrow> walkResult \<times> 's) \<Rightarrow> string \<Rightarrow> fsnode
     \<Rightarrow> 's \<times> (string \<times> walkResult) list \<Rightarrow> walkResult \<times> 's \<times> (string \<times> walkResult) list" where
  "traced fn path node sl =
     (case fn path node (fst sl) of (r, s') \<Rightarrow> (r, s', snd sl @ [(path, r)]))"

definition visits ::
  "(string \<Rightarrow> string \<Rightarrow> bool) \<Rightarrow> string list \<Rightarrow> fsnode \<Rightarrow> (string \<times> walkResult) list" where
  "visits Match excludeDirs root =
     snd (snd (walk (traced (walkFn Match excludeDirs)) ''.'' root ([], [])))"

text \<open>
  \<open>parseProject\<close> walks the working directory \<^verbatim>\<open>.\<close> and returns the package map
  together with the error of the walk, if any.
\<close>

definition parseProject ::
  "(string \<Rightarrow> string \<Rightarrow> bool) \<Rightarrow> string list \<Rightarrow> fsnode \<Rightarrow> packages \<times> walkError option" where
  "parseProject Match excludeDirs root =
     (case walk (walkFn Match excludeDirs) ''.'' root [] of
        (WalkErr e, pkgs) \<Rightarrow> (pkgs, Some e)
      | (r, pkgs) \<Rightarrow> (pkgs, None))"

section \<open>Diagnostics and configuration\<close>

record ValidationError =
  Rule :: string
  File :: string
  Line :: int
  Column :: int
  Message :: string
  Severity :: string

record GearConfig =
  Exclude :: "string list"
  Rules :: "(string \<times> string) list"

text \<open>
  What the run takes from outside the repository: the glob matcher, the answer of the
  external type resolver for an import path and a type name, and the order in which
  each \<^verbatim>\<open>range\<close> over a map visits its entries. The two orders are indexed by the
  position of the rule being run, since every loop may see another one.
\<close>

record runtime =
  globMatch :: "string \<Rightarrow> string \<Rightarrow> bool"
  isExternalInterface :: "string \<Rightarrow> string \<Rightarrow> bool"
  rangePackages :: "nat \<Rightarrow> packages \<Rightarrow> packages"
  rangeFiles :: "nat \<Rightarrow> (string \<times> astFile) list \<Rightarrow> (string \<times> astFile) list"

text \<open>\<^verbatim>\<open>'%s'\<close> in a message format.\<close>

definition quoted :: "string \<Rightarrow> string" where
  "quoted s = [CHR 0x27] @ s @ [CHR 0x27]"

section \<open>Interface contracts\<close>

record TypeInfo =
  tiName :: string
  tiIsExported :: bool
  tiPosition :: position

text \<open>\<^verbatim>\<open>ast.IsExported\<close>: the name starts with an upper-case letter (ASCII here).\<close>

definition IsExported :: "string \<Rightarrow> bool" where
  "IsExported name =
     (case name of [] \<Rightarrow> False
      | c # cs \<Rightarrow> (65::nat) \<le> of_char c \<and> of_char c \<le> (90::nat))"

fun specInterfaces :: "spec \<Rightarrow> TypeInfo list" where
  "specInterfaces (TypeSpec pos name (InterfaceType ms)) =
     [\<lparr>tiName = name, tiIsExported = IsExported name, tiPosition = pos\<rparr>]"
| "specInterfaces other = []"

fun specStructs :: "spec \<Rightarrow> TypeInfo list" where
  "specStructs (TypeSpec pos name (StructType fs)) =
     [\<lparr>tiName = name, tiIsExported = IsExported name, tiPosition = pos\<rparr>]"
| "specStructs other = []"

fun declInterfaces :: "decl \<Rightarrow> TypeInfo list" where
  "declInterfaces (GenDecl TYPEDECL specs) = concat (map specInterfaces specs)"
| "declInterfaces other = []"

fun declStructs :: "decl \<Rightarrow> TypeInfo list" where
  "declStructs (GenDecl TYPEDECL specs) = concat (map specStructs specs)"
| "declStructs other = []"

definition dataStructSuffixes :: "string list" where
  "dataStructSuffixes =
     [''Request'', ''Response'', ''Model'', ''DTO'', ''Data'', ''Entity'',
      ''Config'', ''Settings'', ''Options'', ''Params'', ''Result'', ''Info'',
      ''Status'', ''State'', ''Event'', ''Message'', ''Payload'', ''Body'',
      ''Error'', ''Exception'', ''Notification'', ''Alert'', ''Report'']"

definition dataStructPrefixes :: "string list" where
  "dataStructPrefixes = [''Create'', ''Update'', ''Delete'', ''Get'', ''List'', ''Search'']"

definition isDataStruct :: "string \<Rightarrow> bool" where
  "isDataStruct name =
     (list_ex (HasSuffix name) dataStructSuffixes \<or> list_ex (HasPrefix name) dataStructPrefixes)"

fun recvNames :: "field \<Rightarrow> string list" where
  "recvNames (Field names (Ident n)) = [n]"
| "recvNames (Field names (StarExpr pos (Ident n))) = [n]"
| "recvNames other = []"

fun declReceivers :: "decl \<Rightarrow> string list" where
  "declReceivers (FuncDecl pos (Some recv) name params results body) = concat (map recvNames recv)"
| "declReceivers other = []"

definition structHasMethods :: "string \<Rightarrow> astFile \<Rightarrow> bool" where
  "structHasMethods structName f = (structName \<in> set (concat (map declReceivers (Decls f))))"

definition shouldBeUnexported :: "string \<Rightarrow> string \<Rightarrow> astFile \<Rightarrow> bool" where
  "shouldBeUnexported structName filePath f =
     (if \<not> structHasMethods structName f then False
      else if isDataStruct structName then False
      else if Contains filePath ''/model/'' \<or> Contains filePath ''/proto/''
              \<or> Contains filePath ''/dto/'' \<or> Contains filePath ''/client/''
              \<or> Contains filePath ''/provider/'' then False
      else if Contains filePath ''/config/'' \<or> HasSuffix structName ''Config'' then False
      else if Contains filePath ''/errors/'' then False
      else if Contains filePath ''/service/'' \<or> Contains filePath ''/handler/''
              \<or> Contains filePath ''/repository/'' then True
      else \<not> isDataStruct structName)"

definition exportedStructError :: "string \<Rightarrow> TypeInfo \<Rightarrow> ValidationError" where
  "exportedStructError filePath structInfo =
     \<lparr>Rule = ''R01-interface-contracts'', File = filePath,
      Line = fst (tiPosition structInfo), Column = snd (tiPosition structInfo),
      Message = ''Struct '' @ quoted (tiName structInfo) @
        '' is exported - GEAR prefers unexported structs with exported interfaces for service/business logic'',
      Severity = ''warning''\<rparr>"

definition unexportedInterfaceError :: "string \<Rightarrow> TypeInfo \<Rightarrow> ValidationError" where
  "unexportedInterfaceError filePath interfaceInfo =
     \<lparr>Rule = ''R01-interface-contracts'', File = filePath,
      Line = fst (tiPosition interfaceInfo), Column = snd (tiPosition interfaceInfo),
      Message = ''Interface '' @ quoted (tiName interfaceInfo) @
        '' is unexported - GEAR requires exported interfaces'',
      Severity = ''error''\<rparr>"

text \<open>The body of the loop over the files of a package.\<close>

definition interfaceContractsFile :: "string \<Rightarrow> astFile \<Rightarrow> ValidationError list" where
  "interfaceContractsFile filePath f =
     (let interfaces = concat (map declInterfaces (Decls f));
          structs = concat (map declStructs (Decls f))
      in map (exportedStructError filePath)
           (filter (\<lambda>structInfo. tiIsExported structInfo
                      \<and> shouldBeUnexported (tiName structInfo) filePath f) structs)
         @ map (unexportedInterfaceError filePath)
             (filter (\<lambda>interfaceInfo. \<not> tiIsExported interfaceInfo) interfaces))"

definition validateInterfaceContracts ::
  "((string \<times> astFile) list \<Rightarrow> (string \<times> astFile) list) \<Rightarrow> Package \<Rightarrow> ValidationError list" where
  "validateInterfaceContracts order pkg =
     concat (map (\<lambda>(filePath, f). interfaceContractsFile filePath f) (order (pkgFiles pkg)))"

section \<open>Interface usage\<close>

text \<open>The import map of a file: alias, or last element of the path, to import path.\<close>

definition importKey :: "string option \<times> string \<Rightarrow> string \<times> string" where
  "importKey imp =
     (let path = Trim (snd imp) (CHR 0x22)
      in case fst imp of
           Some name \<Rightarrow> (name, path)
         | None \<Rightarrow> (last (Split path (CHR ''/'')), path))"

definition importMap :: "astFile \<Rightarrow> string \<Rightarrow> string option" where
  "importMap f = map_of (rev (map importKey (Imports f)))"

text \<open>The lookup of a local type name in the file scope, down to the interface test.\<close>

definition isLocalInterface :: "astFile \<Rightarrow> string \<Rightarrow> bool" where
  "isLocalInterface f typeName =
     (case Scope f typeName of
        None \<Rightarrow> False
      | Some obj \<Rightarrow>
          Kind obj = Typ \<and>
          (case Decl obj of
             Some (TypeSpec pos name (InterfaceType ms)) \<Rightarrow> True
           | _ \<Rightarrow> False))"

text \<open>
  The test shared by the struct field and the parameter branches, on the operand of a
  pointer type: \<open>None\<close> is the \<^verbatim>\<open>continue\<close> of the default case, otherwise the type
  name and whether it resolved to an interface.
\<close>

definition pointerTarget :: "runtime \<Rightarrow> astFile \<Rightarrow> expr \<Rightarrow> (string \<times> bool) option" where
  "pointerTarget rt f x =
     (case x of
        Ident typeName \<Rightarrow> Some (typeName, isLocalInterface f typeName)
      | SelectorExpr pkgX typeName \<Rightarrow>
          Some (typeName,
            (case pkgX of
               Ident pkgIdent \<Rightarrow>
                 (case importMap f pkgIdent of
                    Some packagePath \<Rightarrow> isExternalInterface rt packagePath typeName
                  | None \<Rightarrow> False)
             | _ \<Rightarrow> False))
      | _ \<Rightarrow> None)"

definition usageError :: "string \<Rightarrow> position \<Rightarrow> string \<Rightarrow> ValidationError" where
  "usageError filePath pos msg =
     \<lparr>Rule = ''R06-interface-usage'', File = filePath, Line = fst pos, Column = snd pos,
      Message = msg, Severity = ''error''\<rparr>"

definition firstNameOr :: "string list \<Rightarrow> string \<Rightarrow> string" where
  "firstNameOr names typeName = (case names of [] \<Rightarrow> typeName | n # ns \<Rightarrow> n)"

fun structFieldErrors :: "runtime \<Rightarrow> string \<Rightarrow> astFile \<Rightarrow> field \<Rightarrow> ValidationError list" where
  "structFieldErrors rt filePath f (Field names (StarExpr pos x)) =
     (case pointerTarget rt f x of
        Some (typeName, True) \<Rightarrow>
          [usageError filePath pos
             (''Struct field '' @ quoted (firstNameOr names typeName) @ '' has type '' @
              quoted (''*'' @ typeName) @
              '' - pointer to interface is an anti-pattern, use '' @ quoted typeName @
              '' instead'')]
      | _ \<Rightarrow> [])"
| "structFieldErrors rt filePath f other = []"

fun paramErrors :: "runtime \<Rightarrow> string \<Rightarrow> astFile \<Rightarrow> field \<Rightarrow> ValidationError list" where
  "paramErrors rt filePath f (Field names (StarExpr pos x)) =
     (case pointerTarget rt f x of
        Some (typeName, True) \<Rightarrow>
          [usageError filePath pos
             (''Function parameter '' @ quoted (firstNameOr names typeName) @ '' has type '' @
              quoted (''*'' @ typeName) @
              '' - pointer to interface is an anti-pattern, use '' @ quoted typeName @
              '' instead'')]
      | _ \<Rightarrow> [])"
| "paramErrors rt filePath f other = []"

fun resultErrors :: "string \<Rightarrow> astFile \<Rightarrow> field \<Rightarrow> ValidationError list" where
  "resultErrors filePath f (Field names (StarExpr pos (Ident name))) =
     (if isLocalInterface f name
      then [usageError filePath pos
              (''Function returns '' @ quoted (''*'' @ name) @
               '' - pointer to interface, use '' @ quoted name @ '' instead'')]
      else [])"
| "resultErrors filePath f other = []"

text \<open>
  The callback of \<^verbatim>\<open>ast.Inspect\<close> on an expression node: the cases for a struct type
  and for a pointer type; every other node gives nothing.
\<close>

fun visitExpr :: "runtime \<Rightarrow> string \<Rightarrow> astFile \<Rightarrow> expr \<Rightarrow> ValidationError list" where
  "visitExpr rt filePath f (StructType fieldList) =
     concat (map (structFieldErrors rt filePath f) fieldList)"
| "visitExpr rt filePath f (StarExpr pos (Ident name)) =
     (if isLocalInterface f name
      then [usageError filePath pos
              (''Pointer to interface '' @ quoted (''*'' @ name) @
               '' is an anti-pattern - interfaces are already reference types'')]
      else [])"
| "visitExpr rt filePath f other = []"

text \<open>The callback on a function declaration: the parameters, then the results.\<close>

definition visitFuncDecl ::
  "runtime \<Rightarrow> string \<Rightarrow> astFile \<Rightarrow> field list option \<Rightarrow> field list option \<Rightarrow> ValidationError list" where
  "visitFuncDecl rt filePath f params results =
     (case params of None \<Rightarrow> [] | Some ps \<Rightarrow> concat (map (paramErrors rt filePath f) ps))
     @ (case results of None \<Rightarrow> [] | Some rs \<Rightarrow> concat (map (resultErrors filePath f) rs))"

text \<open>
  \<^verbatim>\<open>ast.Inspect\<close>: depth first, the callback on a node before its children. The callback
  always returns true, so every node is entered.
\<close>

fun inspectExpr :: "runtime \<Rightarrow> string \<Rightarrow> astFile \<Rightarrow> expr \<Rightarrow> ValidationError list"
and inspectField :: "runtime \<Rightarrow> string \<Rightarrow> astFile \<Rightarrow> field \<Rightarrow> ValidationError list"
where
  "inspectExpr rt filePath f (Ident n) = visitExpr rt filePath f (Ident n)"
| "inspectExpr rt filePath f (StarExpr pos x) =
     visitExpr rt filePath f (StarExpr pos x) @ inspectExpr rt filePath f x"
| "inspectExpr rt filePath f (SelectorExpr x sel) =
     visitExpr rt filePath f (SelectorExpr x sel) @ inspectExpr rt filePath f x"
| "inspectExpr rt filePath f (StructType fieldList) =
     visitExpr rt filePath f (StructType fieldList)
     @ concat (map (inspectField rt filePath f) fieldList)"
| "inspectExpr rt filePath f (InterfaceType methods) =
     visitExpr rt filePath f (InterfaceType methods)
     @ concat (map (inspectField rt filePath f) methods)"
| "inspectExpr rt filePath f (FuncType params results) =
     visitExpr rt filePath f (FuncType params results)
     @ concat (map (inspectField rt filePath f) params)
     @ concat (map (inspectField rt filePath f) results)"
| "inspectExpr rt filePath f (Node children) =
     visitExpr rt filePath f (Node children)
     @ concat (map (inspectExpr rt filePath f) children)"
| "inspectField rt filePath f (Field names t) = inspectExpr rt filePath f t"

definition inspectFields ::
  "runtime \<Rightarrow> string \<Rightarrow> astFile \<Rightarrow> field list option \<Rightarrow> ValidationError list" where
  "inspectFields rt filePath f fl =
     (case fl of None \<Rightarrow> [] | Some fs \<Rightarrow> concat (map (inspectField rt filePath f) fs))"

fun inspectSpec :: "runtime \<Rightarrow> string \<Rightarrow> astFile \<Rightarrow> spec \<Rightarrow> ValidationError list" where
  "inspectSpec rt filePath f (TypeSpec pos name t) = inspectExpr rt filePath f t"
| "inspectSpec rt filePath f (ValueSpec names children) =
     concat (map (inspectExpr rt filePath f) children)"
| "inspectSpec rt filePath f (ImportSpec name path) = []"

fun inspectDecl :: "runtime \<Rightarrow> string \<Rightarrow> astFile \<Rightarrow> decl \<Rightarrow> ValidationError list" where
  "inspectDecl rt filePath f (GenDecl tok specs) =
     concat (map (inspectSpec rt filePath f) specs)"
| "inspectDecl rt filePath f (FuncDecl pos recv name params results body) =
     visitFuncDecl rt filePath f params results
     @ inspectFields rt filePath f recv
     @ inspectFields rt filePath f params
     @ inspectFields rt filePath f results
     @ concat (map (inspectExpr rt filePath f) body)"
| "inspectDecl rt filePath f BadDecl = []"

definition interfaceUsageFile :: "runtime \<Rightarrow> string \<Rightarrow> astFile \<Rightarrow> ValidationError list" where
  "interfaceUsageFile rt filePath f = concat (map (inspectDecl rt filePath f) (Decls f))"

definition validateInterfaceUsage ::
  "runtime \<Rightarrow> ((string \<times> astFile) list \<Rightarrow> (string \<times> astFile) list) \<Rightarrow> Package
     \<Rightarrow> ValidationError list" where
  "validateInterfaceUsage rt order pkg =
     concat (map (\<lambda>(filePath, f). interfaceUsageFile rt filePath f) (order (pkgFiles pkg)))"

section \<open>Constructor patterns\<close>

fun constructorErrors :: "string \<Rightarrow> decl \<Rightarrow> ValidationError list" where
  "constructorErrors filePath (FuncDecl pos recv name params results body) =
     (if \<not> HasPrefix name ''New'' then []
      else if Contains filePath ''/errors/'' \<or> Contains filePath ''/utils/''
              \<or> Contains filePath ''/util/'' \<or> Contains filePath ''/config/''
              \<or> Contains filePath ''/model/'' \<or> Contains filePath ''/dto/''
              \<or> Contains filePath ''/proto/'' then []
      else (case results of
              None \<Rightarrow> []
            | Some [] \<Rightarrow> []
            | Some (Field names returnType # rest) \<Rightarrow>
                (case returnType of
                   StarExpr spos (Ident n) \<Rightarrow>
                     [\<lparr>Rule = ''R02-constructor-patterns'', File = filePath,
                       Line = fst pos, Column = snd pos,
                       Message = ''Constructor '' @ quoted name @
                         '' returns pointer to struct - GEAR constructors should return interfaces'',
                       Severity = ''warning''\<rparr>]
                 | _ \<Rightarrow> [])))"
| "constructorErrors filePath other = []"

definition validateConstructorPatterns ::
  "((string \<times> astFile) list \<Rightarrow> (string \<times> astFile) list) \<Rightarrow> Package \<Rightarrow> ValidationError list" where
  "validateConstructorPatterns order pkg =
     concat (map (\<lambda>(filePath, f). concat (map (constructorErrors filePath) (Decls f)))
               (order (pkgFiles pkg)))"

section \<open>The checks on the directory layout\<close>

text \<open>
  \<^verbatim>\<open>os.Stat\<close> of a relative path from the working directory, which is the root of the
  tree: found, not found (\<^verbatim>\<open>os.IsNotExist\<close>), or another error.
\<close>

datatype statResult = StatOk | ErrNotExist | StatError

fun statPath :: "fsnode \<Rightarrow> string list \<Rightarrow> statResult" where
  "statPath (ErrNode n) segs = StatError"
| "statPath node [] = StatOk"
| "statPath (FileNode n c) (s # segs) = StatError"
| "statPath (DirNode n cs) (s # segs) =
     (case find (\<lambda>c. nodeName c = s) cs of
        None \<Rightarrow> ErrNotExist
      | Some c \<Rightarrow> statPath c segs)"

definition Stat :: "fsnode \<Rightarrow> string \<Rightarrow> statResult" where
  "Stat root path = statPath root (Split path (CHR ''/''))"

text \<open>
  The domain boundaries check probes four directories and continues whatever the
  answer; it returns its empty list.
\<close>

definition validateDomainBoundaries :: "Package \<Rightarrow> ValidationError list" where
  "validateDomainBoundaries pkg = []"

definition validateCentralizedConfig :: "fsnode \<Rightarrow> Package \<Rightarrow> ValidationError list" where
  "validateCentralizedConfig root pkg =
     (let configPath = ''internal/config'' in
      if Stat root configPath = ErrNotExist
      then [\<lparr>Rule = ''R04-centralized-config'', File = configPath, Line = 0, Column = 0,
             Message = ''Missing internal/config package - GEAR requires centralized configuration'',
             Severity = ''error''\<rparr>]
      else [])"

definition validateSystematicErrors :: "fsnode \<Rightarrow> Package \<Rightarrow> ValidationError list" where
  "validateSystematicErrors root pkg =
     (let errorsPath = ''internal/errors'' in
      if Stat root errorsPath = ErrNotExist
      then [\<lparr>Rule = ''R05-systematic-errors'', File = errorsPath, Line = 0, Column = 0,
             Message = ''Missing internal/errors package - GEAR requires systematic error handling'',
             Severity = ''error''\<rparr>]
      else [])"

section \<open>The validation run\<close>

record ValidationRule =
  ruleName :: string
  Description :: string
  Check :: "Package \<Rightarrow> ValidationError list"

definition rules :: "runtime \<Rightarrow> fsnode \<Rightarrow> ValidationRule list" where
  "rules rt root =
     [\<lparr>ruleName = ''R01-interface-contracts'',
       Description = ''Interface contracts: exported interfaces + unexported structs'',
       Check = validateInterfaceContracts (rangeFiles rt 0)\<rparr>,
      \<lparr>ruleName = ''R02-interface-usage'',
       Description = ''Interface usage: no pointer-to-interface anti-patterns'',
       Check = validateInterfaceUsage rt (rangeFiles rt 1)\<rparr>,
      \<lparr>ruleName = ''R03-constructor-patterns'',
       Description = ''Constructor patterns: constructors return interfaces'',
       Check = validateConstructorPatterns (rangeFiles rt 2)\<rparr>,
      \<lparr>ruleName = ''R04-domain-boundaries'',
       Description = ''Domain boundaries: clean layer separation'',
       Check = validateDomainBoundaries\<rparr>,
      \<lparr>ruleName = ''R05-centralized-config'',
       Description = ''Centralized configuration: internal/config package exists'',
       Check = validateCentralizedConfig root\<rparr>,
      \<lparr>ruleName = ''R06-systematic-errors'',
       Description = ''Systematic error handling: internal/errors package exists'',
       Check = validateSystematicErrors root\<rparr>]"

text \<open>
  The \<^verbatim>\<open>.gearrc\<close> file as \<open>loadGearConfig\<close> finds it: absent, unreadable, not valid
  YAML, or unmarshalled into a configuration.
\<close>

datatype gearrc = NoGearrc | GearrcUnreadable | GearrcInvalid | GearrcParsed GearConfig

fun loadGearConfig :: "gearrc \<Rightarrow> GearConfig option" where
  "loadGearConfig NoGearrc = Some \<lparr>Exclude = [], Rules = []\<rparr>"
| "loadGearConfig GearrcUnreadable = None"
| "loadGearConfig GearrcInvalid = None"
| "loadGearConfig (GearrcParsed config) = Some config"

text \<open>The two nested loops that run every rule on every package.\<close>

definition runRules :: "runtime \<Rightarrow> ValidationRule list \<Rightarrow> packages \<Rightarrow> ValidationError list" where
  "runRules rt rs pkgs =
     concat (map (\<lambda>(i, rule). concat (map (\<lambda>(name, pkg). Check rule pkg) (rangePackages rt i pkgs)))
               (enumerate 0 rs))"

text \<open>
  What the report prints and counts. The loop prints a diagnostic whose severity is one
  of the three known ones; the exit status is 1 when the error count is positive.
\<close>

record report =
  printed :: "ValidationError list"
  errorCount :: nat
  warningCount :: nat
  exitStatus :: nat

fun reportLoop :: "ValidationError list \<Rightarrow> ValidationError list \<times> nat \<times> nat
    \<Rightarrow> ValidationError list \<times> nat \<times> nat" where
  "reportLoop [] acc = acc"
| "reportLoop (err # errs) (out, ec, wc) =
     reportLoop errs
       (if Severity err = ''error'' then (out @ [err], ec + 1, wc)
        else if Severity err = ''warning'' then (out @ [err], ec, wc + 1)
        else if Severity err = ''info'' then (out @ [err], ec, wc)
        else (out, ec, wc))"

definition reportResults :: "ValidationError list \<Rightarrow> report" where
  "reportResults allErrors =
     (if allErrors = [] then \<lparr>printed = [], errorCount = 0, warningCount = 0, exitStatus = 0\<rparr>
      else (case reportLoop allErrors ([], 0, 0) of
              (out, ec, wc) \<Rightarrow>
                \<lparr>printed = out, errorCount = ec, warningCount = wc,
                 exitStatus = (if ec > 0 then 1 else 0)\<rparr>))"

text \<open>
  The exclusion patterns of the run: those of the \<^verbatim>\<open>--exclude\<close> flag, and those of the
  configuration file when the flag gave none.
\<close>

definition mergeExclude :: "string list \<Rightarrow> GearConfig \<Rightarrow> string list" where
  "mergeExclude flagExclude config =
     (if length flagExclude = 0 \<and> length (Exclude config) > 0
      then Exclude config else flagExclude)"

datatype runError = NotGoProject | ConfigLoadFailed | ParseFailed walkError

datatype outcome = Failed runError | Finished report

text \<open>
  \<open>validateProject\<close>, from the tree under the working directory, the \<^verbatim>\<open>.gearrc\<close> file
  and the \<^verbatim>\<open>--exclude\<close> flag. The severity table \<open>Rules\<close> of the configuration is loaded
  and not read again.
\<close>

definition validateProject :: "runtime \<Rightarrow> fsnode \<Rightarrow> gearrc \<Rightarrow> string list \<Rightarrow> outcome" where
  "validateProject rt root rc flagExclude =
     (if Stat root ''go.mod'' = ErrNotExist then Failed NotGoProject
      else (case loadGearConfig rc of
              None \<Rightarrow> Failed ConfigLoadFailed
            | Some config \<Rightarrow>
                (case parseProject (globMatch rt) (mergeExclude flagExclude config) root of
                   (pkgs, Some e) \<Rightarrow> Failed (ParseFailed e)
                 | (pkgs, None) \<Rightarrow> Finished (reportResults (runRules rt (rules rt root) pkgs)))))"

section \<open>Concrete inputs\<close>

text \<open>
  A runtime for the concrete runs below. No exclusion pattern there has a wildcard, so
  the glob matcher is never asked, and a pattern without meta-characters matches itself
  only; no type is resolved in another package; every \<^verbatim>\<open>range\<close> visits the entries in
  list order.
\<close>

definition plainRuntime :: runtime where
  "plainRuntime =
     \<lparr>globMatch = (\<lambda>p n. p = n), isExternalInterface = (\<lambda>p t. False),
      rangePackages = (\<lambda>i pkgs. pkgs), rangeFiles = (\<lambda>i fs. fs)\<rparr>"

text \<open>
  Scenario C of the specification, as the parser returns it:
  \<^verbatim>\<open>
  package repo

  type Repo interface {
      Get()
  }

  type Service struct {
      repo *Repo
  }
  \<close>
\<close>

definition repoSpec :: spec where
  "repoSpec = TypeSpec (3, 6) ''Repo'' (InterfaceType [Field [''Get''] (FuncType [] [])])"

definition serviceSpec :: spec where
  "serviceSpec =
     TypeSpec (7, 6) ''Service'' (StructType [Field [''repo''] (StarExpr (8, 10) (Ident ''Repo''))])"

definition scenarioC :: astFile where
  "scenarioC =
     \<lparr>Name = ''repo'',
      Decls = [GenDecl TYPEDECL [repoSpec], GenDecl TYPEDECL [serviceSpec]],
      Imports = [],
      Scope = map_of [(''Repo'', Object Typ (Some repoSpec)),
                      (''Service'', Object Typ (Some serviceSpec))]\<rparr>"

definition scenarioCPackage :: Package where
  "scenarioCPackage = \<lparr>pkgName = ''repo'', pkgFiles = [(''repo.go'', scenarioC)]\<rparr>"

text \<open>
  A project that holds the file of Scenario C, a \<^verbatim>\<open>go.mod\<close> and both directories
  \<^verbatim>\<open>internal/config\<close> and \<^verbatim>\<open>internal/errors\<close>.
\<close>

definition scenarioCTree :: fsnode where
  "scenarioCTree =
     DirNode ''.''
       [FileNode ''go.mod'' ParseError,
        DirNode ''internal'' [DirNode ''config'' [], DirNode ''errors'' []],
        FileNode ''repo.go'' (Parsed scenarioC)]"

text \<open>Scenario D: the configuration that overrides the severity of rule R02.\<close>

definition scenarioDConfig :: GearConfig where
  "scenarioDConfig = \<lparr>Exclude = [], Rules = [(''R02'', ''warning'')]\<rparr>"

text \<open>
  A project with a vendored file that does not parse, next to the file of Scenario C.
\<close>

definition vendorTree :: fsnode where
  "vendorTree =
     DirNode ''.''
       [FileNode ''go.mod'' ParseError,
        FileNode ''repo.go'' (Parsed scenarioC),
        DirNode ''vendor'' [DirNode ''lib'' [FileNode ''x.go'' ParseError]]]"



text \<open>
  A project with a directory \<^verbatim>\<open>scripts\<close>, to be run with the exclusion pattern
  \<^verbatim>\<open>scripts\<close>.
\<close>

definition scriptsTree :: fsnode where
  "scriptsTree =
     DirNode ''.''
       [FileNode ''go.mod'' ParseError,
        DirNode ''scripts'' [FileNode ''tool.go'' ParseError]]"

text \<open>
  Scenario E of the specification, in the file \<^verbatim>\<open>pkg/foo/foo.go\<close>:
  \<^verbatim>\<open>
  package foo

  type foo struct{}

  func NewFoo() *foo { return &foo{} }
  \<close>
\<close>

definition fooSpec :: spec where
  "fooSpec = TypeSpec (3, 6) ''foo'' (StructType [])"

definition newFooDecl :: decl where
  "newFooDecl =
     FuncDecl (5, 1) None ''NewFoo'' (Some []) (Some [Field [] (StarExpr (5, 15) (Ident ''foo''))])
       [Node [Node [Ident ''foo'', Node []]]]"

definition scenarioE :: astFile where
  "scenarioE =
     \<lparr>Name = ''foo'',
      Decls = [GenDecl TYPEDECL [fooSpec], newFooDecl],
      Imports = [],
      Scope = map_of [(''foo'', Object Typ (Some fooSpec)), (''NewFoo'', Object Fun None)]\<rparr>"

definition scenarioEPackage :: Package where
  "scenarioEPackage = \<lparr>pkgName = ''foo'', pkgFiles = [(''pkg/foo/foo.go'', scenarioE)]\<rparr>"

text \<open>A project without the directory \<^verbatim>\<open>internal\<close>.\<close>

definition bareTree :: fsnode where
  "bareTree = DirNode ''.'' [FileNode ''go.mod'' ParseError]"

text \<open>
  A configuration that overrides the severity of the interface usage rule under every
  identifier the rule goes by: the documented one and the one on its diagnostics, each
  with and without the descriptive suffix.
\<close>

definition overrideConfig :: GearConfig where
  "overrideConfig =
     \<lparr>Exclude = [],
      Rules = [(''R02'', ''warning''), (''R02-interface-usage'', ''warning''),
               (''R06'', ''warning''), (''R06-interface-usage'', ''warning'')]\<rparr>"

text \<open>
  A project with two packages, each of one file without declarations, that has the
  directory \<^verbatim>\<open>internal/errors\<close> and lacks \<^verbatim>\<open>internal/config\<close>.
\<close>

definition alphaFile :: astFile where
  "alphaFile = \<lparr>Name = ''alpha'', Decls = [], Imports = [], Scope = Map.empty\<rparr>"

definition betaFile :: astFile where
  "betaFile = \<lparr>Name = ''beta'', Decls = [], Imports = [], Scope = Map.empty\<rparr>"

definition twoPackageTree :: fsnode where
  "twoPackageTree =
     DirNode ''.''
       [FileNode ''a.go'' (Parsed alphaFile),
        FileNode ''b.go'' (Parsed betaFile),
        FileNode ''go.mod'' ParseError,
        DirNode ''internal'' [DirNode ''errors'' []]]"

text \<open>The diagnostic of the centralized configuration check.\<close>

definition missingConfig :: ValidationError where
  "missingConfig =
     \<lparr>Rule = ''R04-centralized-config'', File = ''internal/config'', Line = 0, Column = 0,
      Message = ''Missing internal/config package - GEAR requires centralized configuration'',
      Severity = ''error''\<rparr>"

text \<open>
  A file in which the interface is declared after the struct that points to it, and is
  not exported:
  \<^verbatim>\<open>
  package svc

  type holder struct {
      r *repo
  }

  type repo interface {
  }
  \<close>
\<close>

definition holderSpec :: spec where
  "holderSpec = TypeSpec (3, 6) ''holder'' (StructType [Field [''r''] (StarExpr (4, 7) (Ident ''repo''))])"

definition lowerRepoSpec :: spec where
  "lowerRepoSpec = TypeSpec (7, 6) ''repo'' (InterfaceType [])"

definition unsortedFile :: astFile where
  "unsortedFile =
     \<lparr>Name = ''svc'',
      Decls = [GenDecl TYPEDECL [holderSpec], GenDecl TYPEDECL [lowerRepoSpec]],
      Imports = [],
      Scope = map_of [(''holder'', Object Typ (Some holderSpec)),
                      (''repo'', Object Typ (Some lowerRepoSpec))]\<rparr>"

definition unsortedTree :: fsnode where
  "unsortedTree =
     DirNode ''.''
       [FileNode ''go.mod'' ParseError,
        DirNode ''internal'' [DirNode ''config'' [], DirNode ''errors'' []],
        FileNode ''svc.go'' (Parsed unsortedFile)]"

section \<open>Predicates for stating the properties\<close>

text \<open>No file of any package is stored under a path that satisfies \<open>P\<close>.\<close>

definition keysAvoid :: "(string \<Rightarrow> bool) \<Rightarrow> packages \<Rightarrow> bool" where
  "keysAvoid P pkgs =
     (\<forall>name pkg path f. (name, pkg) \<in> set pkgs \<longrightarrow> (path, f) \<in> set (pkgFiles pkg) \<longrightarrow> \<not> P path)"



text \<open>
  The effective severity of a diagnostic in the specification's words: the override of
  the configuration for its rule identifier if there is one, else the severity coded in
  the checker.
\<close>

definition effectiveSeverity :: "GearConfig \<Rightarrow> ValidationError \<Rightarrow> string" where
  "effectiveSeverity config e =
     (case map_of (Rules config) (Rule e) of Some s \<Rightarrow> s | None \<Rightarrow> Severity e)"

text \<open>
  The order of the diagnostics in the specification's words: by file path, then line,
  then column, then rule identifier.
\<close>

definition diagnosticKey :: "ValidationError \<Rightarrow> string \<times> int \<times> int \<times> string" where
  "diagnosticKey e = (File e, Line e, Column e, Rule e)"

definition inSpecOrder :: "ValidationError list \<Rightarrow> bool" where
  "inSpecOrder es = sorted (map diagnosticKey es)"

text \<open>
  The position, in the registration order of the rules, of the checker that emits a
  given identifier.
\<close>

definition registrationIndex :: "string \<Rightarrow> nat" where
  "registrationIndex ident =
     (if ident = ''R01-interface-contracts'' then 0
      else if ident = ''R06-interface-usage'' then 1
      else if ident = ''R02-constructor-patterns'' then 2
      else if ident = ''R04-centralized-config'' then 4
      else if ident = ''R05-systematic-errors'' then 5
      else 6)"

text \<open>
  A runtime whose \<^verbatim>\<open>range\<close> loops visit every entry of a map once, in whatever order.
\<close>

definition permuting :: "runtime \<Rightarrow> bool" where
  "permuting rt =
     ((\<forall>i pkgs. mset (rangePackages rt i pkgs) = mset pkgs) \<and>
      (\<forall>i fs. mset (rangeFiles rt i fs) = mset fs))"

text \<open>The diagnostics of a report with a severity the report loop prints.\<close>

definition knownSeverity :: "ValidationError \<Rightarrow> bool" where
  "knownSeverity e = (Severity e = ''error'' \<or> Severity e = ''warning'' \<or> Severity e = ''info'')"

section \<open>Properties of the loader\<close>

lemma update_set_cases:
  "(a, b) \<in> set (AList.update k v al) \<Longrightarrow> (a, b) = (k, v) \<or> (a, b) \<in> set al"
  by (induction al) (auto split: if_splits)

lemma addFile_keysAvoid:
  assumes "keysAvoid P pkgs" "\<not> P path"
  shows "keysAvoid P (addFile path f pkgs)"
  unfolding keysAvoid_def
proof (intro allI impI)
  fix name pkg p g
  assume a: "(name, pkg) \<in> set (addFile path f pkgs)" and b: "(p, g) \<in> set (pkgFiles pkg)"
  let ?old = "case map_of pkgs (Name f) of None \<Rightarrow> \<lparr>pkgName = Name f, pkgFiles = []\<rparr> | Some q \<Rightarrow> q"
  have old: "\<forall>p g. (p, g) \<in> set (pkgFiles ?old) \<longrightarrow> \<not> P p"
    using assms(1) by (auto simp: keysAvoid_def split: option.splits dest: map_of_SomeD)
  from a have "(name, pkg) = (Name f, ?old\<lparr>pkgFiles := AList.update path f (pkgFiles ?old)\<rparr>)
      \<or> (name, pkg) \<in> set pkgs"
    unfolding addFile_def Let_def by (rule update_set_cases)
  then show "\<not> P p"
  proof
    assume "(name, pkg) = (Name f, ?old\<lparr>pkgFiles := AList.update path f (pkgFiles ?old)\<rparr>)"
    then have "(p, g) \<in> set (AList.update path f (pkgFiles ?old))" using b by simp
    then have "(p, g) = (path, f) \<or> (p, g) \<in> set (pkgFiles ?old)" by (rule update_set_cases)
    then show ?thesis using old assms(2) by auto
  next
    assume "(name, pkg) \<in> set pkgs"
    then show ?thesis using assms(1) b by (auto simp: keysAvoid_def)
  qed
qed

lemma walkFn_keysAvoid_vendor:
  "keysAvoid (\<lambda>p. Contains p ''vendor/'') pkgs \<Longrightarrow>
   keysAvoid (\<lambda>p. Contains p ''vendor/'') (snd (walkFn M excl path node pkgs))"
  by (auto simp: walkFn_def addFile_keysAvoid split: fsnode.splits content.splits)

text \<open>What every call of the callback preserves, the whole walk preserves.\<close>

lemma walk_invariant:
  shows "(\<And>p n s. I s \<Longrightarrow> I (snd (fn p n s))) \<Longrightarrow> I s \<Longrightarrow> I (snd (walk fn path node s))"
    and "(\<And>p n s. I s \<Longrightarrow> I (snd (fn p n s))) \<Longrightarrow> I s
           \<Longrightarrow> I (snd (walkEntries fn path cs s))"
proof (induction fn path node s and fn path cs s rule: walk_walkEntries.induct)
  case (1 fn path n cs s)
  obtain r s' where eq: "fn path (DirNode n cs) s = (r, s')"
    by (cases "fn path (DirNode n cs) s")
  have inv: "I s'"
    using "1.prems"(1)[OF "1.prems"(2), of path "DirNode n cs"] eq by simp
  show ?case
  proof (cases r)
    case WalkNil
    then show ?thesis
      using "1.IH"[OF eq[symmetric, unfolded WalkNil] _ "1.prems"(1) inv] eq by simp
  qed (use eq inv in auto)
next
  case (5 fn path c cs s)
  obtain r s' where eq: "walk fn (Join path (nodeName c)) c s = (r, s')"
    by (cases "walk fn (Join path (nodeName c)) c s")
  have inv: "I s'" using "5.IH"(1)[OF "5.prems"] eq by simp
  show ?case
  proof (cases r)
    case WalkNil
    then show ?thesis
      using "5.IH"(2)[OF eq[symmetric, unfolded WalkNil] _ "5.prems"(1) inv] eq by simp
  next
    case SkipDir
    then show ?thesis
      using "5.IH"(3)[OF eq[symmetric, unfolded SkipDir] _ _ "5.prems"(1) inv] eq inv by auto
  next
    case (WalkErr e)
    then show ?thesis using eq inv by simp
  qed
qed auto

lemma parseProject_keysAvoid_vendor:
  "keysAvoid (\<lambda>p. Contains p ''vendor/'') (fst (parseProject M excl root))"
proof -
  have "keysAvoid (\<lambda>p. Contains p ''vendor/'') (snd (walk (walkFn M excl) ''.'' root []))"
  proof (rule walk_invariant(1))
    show "keysAvoid (\<lambda>p. Contains p ''vendor/'') (snd (walkFn M excl p n s))"
      if "keysAvoid (\<lambda>p. Contains p ''vendor/'') s" for p n s
      using that by (rule walkFn_keysAvoid_vendor)
    show "keysAvoid (\<lambda>p. Contains p ''vendor/'') []"
      by (simp add: keysAvoid_def)
  qed
  then show ?thesis
    by (auto simp: parseProject_def split: prod.splits walkResult.splits)
qed

lemma vendorTree_loaded:
  "parseProject (globMatch plainRuntime) [] vendorTree = ([(''repo'', scenarioCPackage)], None)"
  by (simp add: parseProject_def vendorTree_def walkFn_def Join_def HasSuffix_def Contains_def
        suffix_to_prefix sublist_code(3) addFile_def scenarioCPackage_def scenarioC_def)

text \<open>
  C10: a file whose path contains \<^verbatim>\<open>vendor/\<close> is never parsed and is in no package,
  whatever the exclusion patterns are, the empty list included. The callback returns
  \<^verbatim>\<open>nil\<close> on it before reading it, whatever its content, and leaves the package map as
  it is; and no package that \<open>parseProject\<close> returns holds a file under such a path.
\<close>

theorem vendor_never_loaded:
  "Contains path ''vendor/'' \<Longrightarrow>
     walkFn Match excludeDirs path (FileNode n c) pkgs = (WalkNil, pkgs) \<and>
     (\<forall>name pkg f. (name, pkg) \<in> set (fst (parseProject Match excludeDirs root))
        \<longrightarrow> (path, f) \<notin> set (pkgFiles pkg))"
  using parseProject_keysAvoid_vendor[of Match excludeDirs root]
  by (auto simp: walkFn_def keysAvoid_def)

theorem vendor_never_loaded_witness:
  "Contains ''vendor/lib/x.go'' ''vendor/'' \<and>
   walkFn (globMatch plainRuntime) [] ''vendor/lib/x.go'' (FileNode ''x.go'' ParseError) []
     = (WalkNil, []) \<and>
   parseProject (globMatch plainRuntime) [] vendorTree = ([(''repo'', scenarioCPackage)], None) \<and>
   \<not> (\<exists>name pkg f. (name, pkg) \<in> set (fst (parseProject (globMatch plainRuntime) [] vendorTree))
        \<and> (''vendor/lib/x.go'', f) \<in> set (pkgFiles pkg))"
proof -
  have h: "Contains ''vendor/lib/x.go'' ''vendor/''"
    by (simp add: Contains_def sublist_code(3))
  show ?thesis
    using h vendorTree_loaded
      vendor_never_loaded[OF h, of "globMatch plainRuntime" "[]" "''x.go''" ParseError "[]" vendorTree]
    by simp
qed

text \<open>The log does not change what the walk computes.\<close>

lemma traced_simps:
  "fst (traced fn p n sl) = fst (fn p n (fst sl))"
  "fst (snd (traced fn p n sl)) = snd (fn p n (fst sl))"
  "snd (snd (traced fn p n sl)) = snd sl @ [(p, fst (fn p n (fst sl)))]"
  by (simp_all add: traced_def split: prod.splits)




















section \<open>Properties of the exclusion rules\<close>














lemma excludeLoop_exact:
  "p \<in> set excl \<Longrightarrow> TrimSpace p \<noteq> [] \<Longrightarrow> Base path = TrimSpace p
     \<Longrightarrow> excludeLoop M path excl"
  by (induction excl) (auto simp: Let_def)

text \<open>
  The callback never answers \<^verbatim>\<open>SkipDir\<close> for a path whose last segment is one of the
  patterns: the loop over the patterns has returned \<^verbatim>\<open>nil\<close> before.
\<close>

lemma skipDir_not_on_exact_match:
  assumes "fst (walkFn M excl path node pkgs) = SkipDir"
    and "p \<in> set excl" and "TrimSpace p \<noteq> []"
  shows "Base path \<noteq> TrimSpace p"
proof
  assume "Base path = TrimSpace p"
  then have "excludeLoop M path excl" using assms(2,3) by (rule excludeLoop_exact[rotated 2])
  then show False using assms(1)
    by (auto simp: walkFn_def split: fsnode.splits if_splits content.splits)
qed

text \<open>
  C8 at its failing input: with the exclusion pattern \<^verbatim>\<open>scripts\<close>, the callback returns
  \<^verbatim>\<open>nil\<close> and not \<^verbatim>\<open>SkipDir\<close> on the directory \<^verbatim>\<open>scripts\<close>, and the walk goes on into
  the directory and calls the callback on the file in it. In the other direction, with
  the pattern \<^verbatim>\<open>n.go\<close> the directory \<^verbatim>\<open>gen.go\<close>, whose name only ends with the pattern,
  is pruned.
\<close>

theorem excluded_directory_not_pruned:
  "walkFn (globMatch plainRuntime) [''scripts''] ''scripts''
     (DirNode ''scripts'' [FileNode ''tool.go'' ParseError]) [] = (WalkNil, []) \<and>
   visits (globMatch plainRuntime) [''scripts''] scriptsTree
     = [(''.'', WalkNil), (''go.mod'', WalkNil), (''scripts'', WalkNil),
        (''scripts/tool.go'', WalkNil)] \<and>
   walkFn (globMatch plainRuntime) [''n.go''] ''gen.go'' (DirNode ''gen.go'' []) []
     = (SkipDir, [])"
  by (simp add: visits_def scriptsTree_def traced_def walkFn_def Join_def HasSuffix_def
        Contains_def containmentMatch_def Base_def TrimSpace_def isSpace_def
        suffix_to_prefix sublist_code(3))

theorem excluded_directory_not_pruned_witness:
  "fst (walkFn (globMatch plainRuntime) [''scripts''] ''scripts''
          (DirNode ''scripts'' [FileNode ''tool.go'' ParseError]) []) \<noteq> SkipDir \<and>
   (''scripts/tool.go'', WalkNil) \<in> set (visits (globMatch plainRuntime) [''scripts''] scriptsTree)"
  using excluded_directory_not_pruned by simp

section \<open>Properties of the checkers and of the report\<close>

lemma scenarioC_usage:
  "validateInterfaceUsage plainRuntime (\<lambda>fs. fs) scenarioCPackage
     = [usageError ''repo.go'' (8, 10)
          ''Struct field 'repo' has type '*Repo' - pointer to interface is an anti-pattern, use 'Repo' instead'',
        usageError ''repo.go'' (8, 10)
          ''Pointer to interface '*Repo' is an anti-pattern - interfaces are already reference types'']"
  by (simp add: validateInterfaceUsage_def scenarioCPackage_def scenarioC_def
        interfaceUsageFile_def repoSpec_def serviceSpec_def pointerTarget_def isLocalInterface_def
        firstNameOr_def quoted_def)

lemma scenarioC_loaded:
  "parseProject (globMatch plainRuntime) [] scenarioCTree = ([(''repo'', scenarioCPackage)], None)"
  by (simp add: parseProject_def scenarioCTree_def walkFn_def addFile_def scenarioCPackage_def
        scenarioC_def HasSuffix_def Contains_def suffix_to_prefix sublist_code(3) Join_def)

lemma scenarioC_stats:
  "Stat scenarioCTree ''go.mod'' = StatOk"
  "Stat scenarioCTree ''internal/config'' = StatOk"
  "Stat scenarioCTree ''internal/errors'' = StatOk"
  by (simp_all add: Stat_def scenarioCTree_def)

lemma scenarioC_contracts: "validateInterfaceContracts (\<lambda>fs. fs) scenarioCPackage = []"
  by (simp add: validateInterfaceContracts_def scenarioCPackage_def scenarioC_def
        interfaceContractsFile_def repoSpec_def serviceSpec_def IsExported_def
        shouldBeUnexported_def structHasMethods_def)

lemma scenarioC_constructors: "validateConstructorPatterns (\<lambda>fs. fs) scenarioCPackage = []"
  by (simp add: validateConstructorPatterns_def scenarioCPackage_def scenarioC_def
        repoSpec_def serviceSpec_def)

lemma scenarioC_rules:
  "runRules plainRuntime (rules plainRuntime scenarioCTree) [(''repo'', scenarioCPackage)]
     = validateInterfaceUsage plainRuntime (\<lambda>fs. fs) scenarioCPackage"
  by (simp add: runRules_def rules_def enumerate_eq_zip plainRuntime_def scenarioC_contracts
        scenarioC_constructors validateDomainBoundaries_def validateCentralizedConfig_def
        validateSystematicErrors_def scenarioC_stats upt_rec[of 0])

lemma scenarioC_report:
  "reportResults (validateInterfaceUsage plainRuntime (\<lambda>fs. fs) scenarioCPackage)
     = \<lparr>printed = validateInterfaceUsage plainRuntime (\<lambda>fs. fs) scenarioCPackage,
        errorCount = 2, warningCount = 0, exitStatus = 1\<rparr>"
  by (simp add: scenarioC_usage reportResults_def usageError_def)

text \<open>
  C4 at its failing input: on the package of Scenario C the interface usage checker
  returns two diagnostics for the one field, both at the position of the pointer type
  and both under the identifier \<^verbatim>\<open>R06-interface-usage\<close>: the one of the struct field
  case and the one of the pointer case, which \<^verbatim>\<open>ast.Inspect\<close> reaches below the field.
\<close>

theorem scenarioC_two_diagnostics:
  "validateInterfaceUsage plainRuntime (\<lambda>fs. fs) scenarioCPackage
     = [\<lparr>Rule = ''R06-interface-usage'', File = ''repo.go'', Line = 8, Column = 10,
         Message = ''Struct field 'repo' has type '*Repo' - pointer to interface is an anti-pattern, use 'Repo' instead'',
         Severity = ''error''\<rparr>,
        \<lparr>Rule = ''R06-interface-usage'', File = ''repo.go'', Line = 8, Column = 10,
         Message = ''Pointer to interface '*Repo' is an anti-pattern - interfaces are already reference types'',
         Severity = ''error''\<rparr>]"
  by (simp add: scenarioC_usage usageError_def)

text \<open>
  C9 at its failing inputs: the diagnostics of the four checkers carry the identifiers
  \<^verbatim>\<open>R06-interface-usage\<close>, \<^verbatim>\<open>R02-constructor-patterns\<close>, \<^verbatim>\<open>R04-centralized-config\<close> and
  \<^verbatim>\<open>R05-systematic-errors\<close>, while the rules are registered, in this order, under the
  names of the last line.
\<close>

theorem checker_identifiers:
  "map Rule (validateInterfaceUsage plainRuntime (\<lambda>fs. fs) scenarioCPackage)
     = [''R06-interface-usage'', ''R06-interface-usage''] \<and>
   map Rule (validateConstructorPatterns (\<lambda>fs. fs) scenarioEPackage)
     = [''R02-constructor-patterns''] \<and>
   map Rule (validateCentralizedConfig bareTree scenarioEPackage)
     = [''R04-centralized-config''] \<and>
   map Rule (validateSystematicErrors bareTree scenarioEPackage)
     = [''R05-systematic-errors''] \<and>
   map ruleName (rules plainRuntime bareTree)
     = [''R01-interface-contracts'', ''R02-interface-usage'', ''R03-constructor-patterns'',
        ''R04-domain-boundaries'', ''R05-centralized-config'', ''R06-systematic-errors'']"
  by (simp add: scenarioC_usage usageError_def validateConstructorPatterns_def
        scenarioEPackage_def scenarioE_def newFooDecl_def fooSpec_def HasPrefix_def Contains_def
        sublist_code(3) validateCentralizedConfig_def validateSystematicErrors_def Stat_def
        bareTree_def rules_def)

text \<open>
  C1 at its failing input: with the configuration of Scenario D, which sets the
  severity of R02 to \<^verbatim>\<open>warning\<close>, the run on the project of Scenario C prints the two
  diagnostics with the severity \<^verbatim>\<open>error\<close>, counts two errors and exits with 1.
\<close>

theorem override_not_applied:
  "validateProject plainRuntime scenarioCTree (GearrcParsed scenarioDConfig) []
     = Finished \<lparr>printed = validateInterfaceUsage plainRuntime (\<lambda>fs. fs) scenarioCPackage,
                 errorCount = 2, warningCount = 0, exitStatus = 1\<rparr> \<and>
   map Severity (validateInterfaceUsage plainRuntime (\<lambda>fs. fs) scenarioCPackage)
     = [''error'', ''error''] \<and>
   map_of (Rules scenarioDConfig) ''R02'' = Some ''warning''"
  by (simp add: validateProject_def scenarioC_stats scenarioDConfig_def mergeExclude_def
        scenarioC_loaded scenarioC_rules scenarioC_report)
    (simp add: scenarioC_usage usageError_def)

text \<open>
  C2 at its failing input: the configuration overrides the severity of the interface
  usage rule to \<^verbatim>\<open>warning\<close> under every identifier it goes by, so that no diagnostic of
  the run has the effective severity \<^verbatim>\<open>error\<close>; the run exits with 1.
\<close>

theorem exit_status_ignores_overrides:
  "validateProject plainRuntime scenarioCTree (GearrcParsed overrideConfig) []
     = Finished \<lparr>printed = validateInterfaceUsage plainRuntime (\<lambda>fs. fs) scenarioCPackage,
                 errorCount = 2, warningCount = 0, exitStatus = 1\<rparr> \<and>
   map (effectiveSeverity overrideConfig)
       (validateInterfaceUsage plainRuntime (\<lambda>fs. fs) scenarioCPackage)
     = [''warning'', ''warning'']"
  by (simp add: validateProject_def scenarioC_stats overrideConfig_def mergeExclude_def
        scenarioC_loaded scenarioC_rules scenarioC_report)
    (simp add: scenarioC_usage usageError_def effectiveSeverity_def)

end
